theory Spec2Isabelle
  imports Complex_Main
begin

section \<open>Numbers\<close>

text \<open>
  The layout code of the photo framing tool computes with JavaScript numbers. A finite
  number is modelled as an exact rational: the rounding of IEEE-754 doubles is not part
  of the model. The one place where the source can leave the finite numbers is a
  division, so a quotient is a \<open>jsnum\<close>, which is finite, an infinity or NaN.
\<close>

datatype jsnum = Fin rat | PInf | NInf | NaN

definition jsdiv :: "rat \<Rightarrow> rat \<Rightarrow> jsnum" where
  "jsdiv a b =
     (if b = 0 then (if a = 0 then NaN else if 0 < a then PInf else NInf)
      else Fin (a / b))"

text \<open>
  \<^verbatim>\<open>Math.abs(x - t) < tol\<close> for a quotient \<open>x\<close> and finite \<open>t\<close>, \<open>tol\<close>: the
  difference of an infinity and a finite number is that infinity, its absolute value is
  \<open>+Infinity\<close>, which is below no finite number; every comparison with NaN is false.
\<close>

fun absDiffLess :: "jsnum \<Rightarrow> rat \<Rightarrow> rat \<Rightarrow> bool" where
  "absDiffLess (Fin a) t tol = (\<bar>a - t\<bar> < tol)"
| "absDiffLess PInf t tol = False"
| "absDiffLess NInf t tol = False"
| "absDiffLess NaN t tol = False"

text \<open>\<^verbatim>\<open>Math.round\<close> rounds to the nearest integer, a half towards \<open>+Infinity\<close>.\<close>

definition Math_round :: "rat \<Rightarrow> int" where
  "Math_round x = \<lfloor>x + 1 / 2\<rfloor>"

text \<open>\<^verbatim>\<open>Number.isInteger\<close> on a finite number.\<close>

definition isInteger :: "rat \<Rightarrow> bool" where
  "isInteger x = (rat_of_int \<lfloor>x\<rfloor> = x)"

text \<open>\<^verbatim>\<open>a ?? d\<close>: the default \<open>d\<close> where a lookup found nothing.\<close>

fun nullish :: "'a option \<Rightarrow> 'a \<Rightarrow> 'a" where
  "nullish None d = d"
| "nullish (Some v) d = v"

text \<open>\<^verbatim>\<open>table[ratio]?.[space]\<close>: a row that is missing makes the whole lookup undefined.\<close>

fun optChain :: "('b \<Rightarrow> 'c option) option \<Rightarrow> 'b \<Rightarrow> 'c option" where
  "optChain None k = None"
| "optChain (Some row) k = row k"

section \<open>The user's selections\<close>

text \<open>
  \<^verbatim>\<open>RATIOS = ['1:1', '5:7', '9:16']\<close> and \<^verbatim>\<open>SPACES = ['S', 'M', 'L']\<close>; the
  state of the component holds a \<^verbatim>\<open>RatioType\<close> and a \<^verbatim>\<open>SpaceType\<close>.
\<close>

datatype RatioType = R1_1 | R5_7 | R9_16

datatype SpaceType = S | M | L

section \<open>Caption position\<close>

text \<open>The offset tables of the ratio-based generation (fractions of the canvas height).\<close>

fun CAPTION_Y_OFFSET_RATIO :: "RatioType \<Rightarrow> (SpaceType \<Rightarrow> rat option) option" where
  "CAPTION_Y_OFFSET_RATIO R1_1 =
     Some (\<lambda>sp. case sp of S \<Rightarrow> Some 0 | M \<Rightarrow> Some 0 | L \<Rightarrow> None)"
| "CAPTION_Y_OFFSET_RATIO R5_7 =
     Some (\<lambda>sp. case sp of S \<Rightarrow> Some (- (12 / 1000)) | M \<Rightarrow> Some (- (12 / 1000)) | L \<Rightarrow> None)"
| "CAPTION_Y_OFFSET_RATIO R9_16 = None"

fun CAPTION_Y_OFFSET_RATIO_57IMG :: "RatioType \<Rightarrow> (SpaceType \<Rightarrow> rat option) option" where
  "CAPTION_Y_OFFSET_RATIO_57IMG R1_1 =
     Some (\<lambda>sp. case sp of S \<Rightarrow> Some 0 | M \<Rightarrow> Some (- (3 / 1000)) | L \<Rightarrow> None)"
| "CAPTION_Y_OFFSET_RATIO_57IMG R5_7 =
     Some (\<lambda>sp. case sp of S \<Rightarrow> Some 0 | M \<Rightarrow> Some (- (15 / 10000)) | L \<Rightarrow> None)"
| "CAPTION_Y_OFFSET_RATIO_57IMG R9_16 = None"

fun CAPTION_Y_OFFSET_RATIO_23IMG :: "RatioType \<Rightarrow> (SpaceType \<Rightarrow> rat option) option" where
  "CAPTION_Y_OFFSET_RATIO_23IMG R1_1 =
     Some (\<lambda>sp. case sp of S \<Rightarrow> Some 0 | M \<Rightarrow> Some 0 | L \<Rightarrow> None)"
| "CAPTION_Y_OFFSET_RATIO_23IMG R5_7 =
     Some (\<lambda>sp. case sp of S \<Rightarrow> Some 0 | M \<Rightarrow> Some (- (3 / 1000)) | L \<Rightarrow> None)"
| "CAPTION_Y_OFFSET_RATIO_23IMG R9_16 = None"

fun CAPTION_Y_OFFSET_RATIO_45IMG :: "RatioType \<Rightarrow> (SpaceType \<Rightarrow> rat option) option" where
  "CAPTION_Y_OFFSET_RATIO_45IMG R1_1 =
     Some (\<lambda>sp. case sp of S \<Rightarrow> Some 0 | M \<Rightarrow> Some 0 | L \<Rightarrow> None)"
| "CAPTION_Y_OFFSET_RATIO_45IMG R5_7 =
     Some (\<lambda>sp. case sp of S \<Rightarrow> Some (- (45 / 1000)) | M \<Rightarrow> Some (- (37 / 1000)) | L \<Rightarrow> None)"
| "CAPTION_Y_OFFSET_RATIO_45IMG R9_16 = None"

fun CAPTION_DISTANCE_FROM_IMAGE_BOTTOM_L :: "RatioType \<Rightarrow> rat option" where
  "CAPTION_DISTANCE_FROM_IMAGE_BOTTOM_L R1_1 = Some (2 / 100)"
| "CAPTION_DISTANCE_FROM_IMAGE_BOTTOM_L R5_7 = Some (2 / 100)"
| "CAPTION_DISTANCE_FROM_IMAGE_BOTTOM_L R9_16 = Some (2 / 100)"

text \<open>
  An optional number is truthy when it is present and not zero. \<open>imageRatioNear w h t tol\<close>
  is the guard \<^verbatim>\<open>imageWidth && imageHeight && Math.abs(imageWidth / imageHeight - t) < tol\<close>;
  the division is reached with a divisor that is not zero only.
\<close>

fun imageRatioNear :: "rat option \<Rightarrow> rat option \<Rightarrow> rat \<Rightarrow> rat \<Rightarrow> bool" where
  "imageRatioNear (Some w) (Some h) t tol =
     (w \<noteq> 0 \<and> h \<noteq> 0 \<and> absDiffLess (jsdiv w h) t tol)"
| "imageRatioNear None h t tol = False"
| "imageRatioNear (Some w) None t tol = False"

text \<open>\<^verbatim>\<open>canvasH && canvasH < bound\<close>.\<close>

fun truthyBelow :: "rat option \<Rightarrow> rat \<Rightarrow> bool" where
  "truthyBelow None bound = False"
| "truthyBelow (Some c) bound = (c \<noteq> 0 \<and> c < bound)"

text \<open>\<^verbatim>\<open>getCaptionYOffset({ ratio, space, imageWidth, imageHeight, canvasH })\<close>.\<close>

definition getCaptionYOffset ::
  "RatioType \<Rightarrow> SpaceType \<Rightarrow> rat option \<Rightarrow> rat option \<Rightarrow> rat option \<Rightarrow> rat" where
  "getCaptionYOffset ratio space imageWidth imageHeight canvasH =
     (if space = L then nullish (CAPTION_DISTANCE_FROM_IMAGE_BOTTOM_L ratio) 0
      else if imageRatioNear imageWidth imageHeight (5 / 7) (1 / 100)
        then nullish (optChain (CAPTION_Y_OFFSET_RATIO_57IMG ratio) space) 0
      else if imageRatioNear imageWidth imageHeight (2 / 3) (5 / 100)
        then nullish (optChain (CAPTION_Y_OFFSET_RATIO_23IMG ratio) space) 0
      else if imageRatioNear imageWidth imageHeight (4 / 5) (5 / 100)
        then nullish (optChain (CAPTION_Y_OFFSET_RATIO_45IMG ratio) space) 0
      else
        (let base0 = nullish (optChain (CAPTION_Y_OFFSET_RATIO ratio) space) 0;
             base1 = (if ratio = R1_1 \<and> space = S \<and> truthyBelow canvasH 480
                      then base0 - 21 / 1000 else base0);
             base2 = (if ratio = R5_7 \<and> space = S \<and> truthyBelow canvasH 672
                      then base1 - 12 / 1000 else base1)
         in base2))"

text \<open>
  \<^verbatim>\<open>getCaptionYPosition({ ratio, space, canvasHeight, padBottom, imageDrawTop,
  imageDrawHeight, captionHeight, imageWidth, imageHeight })\<close>.
\<close>

definition getCaptionYPosition ::
  "RatioType \<Rightarrow> SpaceType \<Rightarrow> rat \<Rightarrow> rat \<Rightarrow> rat \<Rightarrow> rat \<Rightarrow> rat \<Rightarrow> rat option \<Rightarrow> rat option \<Rightarrow> rat" where
  "getCaptionYPosition ratio space canvasHeight padBottom imageDrawTop imageDrawHeight
       captionHeight imageWidth imageHeight =
     (if ratio = R9_16 then
        (let imageBottom = imageDrawTop + imageDrawHeight;
             distanceFromBottom =
               nullish (CAPTION_DISTANCE_FROM_IMAGE_BOTTOM_L R9_16) (2 / 100) * canvasHeight
         in imageBottom + distanceFromBottom)
      else if space = L then
        (let imageBottom = imageDrawTop + imageDrawHeight;
             distanceFromBottom =
               nullish (CAPTION_DISTANCE_FROM_IMAGE_BOTTOM_L ratio) (2 / 100) * canvasHeight
         in imageBottom + distanceFromBottom)
      else
        (let yOffsetRatio = getCaptionYOffset ratio space imageWidth imageHeight (Some canvasHeight);
             yOffsetPx = yOffsetRatio * canvasHeight
         in canvasHeight - padBottom / 2 - captionHeight / 2 + yOffsetPx))"

section \<open>Aspect ratio of the uploaded image\<close>

text \<open>\<^verbatim>\<open>isSupportedAspectRatio(width, height)\<close>: the check that gates an upload.\<close>

definition isSupportedAspectRatio :: "rat \<Rightarrow> rat \<Rightarrow> bool" where
  "isSupportedAspectRatio width height =
     (let aspectRatio = jsdiv width height;
          targetRatio34 = 3 / 4;
          targetRatio23 = 2 / 3;
          targetRatio45 = 4 / 5;
          tolerance = 1 / 10
      in absDiffLess aspectRatio targetRatio34 tolerance \<or>
         absDiffLess aspectRatio targetRatio23 tolerance \<or>
         absDiffLess aspectRatio targetRatio45 tolerance)"



section \<open>Caption colours\<close>

text \<open>
  Strings are lists of 8-bit characters; a character stands for the UTF-16 code unit of
  the same number. \<^verbatim>\<open>parseInt(s, radix)\<close> skips leading white space, reads a sign,
  drops a \<^verbatim>\<open>0x\<close> prefix when the radix is 16 and reads the longest run of digits of
  the radix; \<open>None\<close> is NaN.
\<close>

definition isStrWhiteSpaceChar :: "char \<Rightarrow> bool" where
  "isStrWhiteSpaceChar c = ((of_char c :: nat) \<in> {9, 10, 11, 12, 13, 32, 160})"

definition digitValue :: "char \<Rightarrow> nat option" where
  "digitValue c =
     (let n = (of_char c :: nat)
      in if 48 \<le> n \<and> n \<le> 57 then Some (n - 48)
         else if 97 \<le> n \<and> n \<le> 122 then Some (n - 87)
         else if 65 \<le> n \<and> n \<le> 90 then Some (n - 55)
         else None)"

definition isRadixDigit :: "nat \<Rightarrow> char \<Rightarrow> bool" where
  "isRadixDigit R c = (case digitValue c of None \<Rightarrow> False | Some d \<Rightarrow> d < R)"

definition digitsValue :: "nat \<Rightarrow> string \<Rightarrow> int" where
  "digitsValue R ds = foldl (\<lambda>acc c. acc * int R + int (nullish (digitValue c) 0)) 0 ds"

definition parseInt :: "string \<Rightarrow> nat \<Rightarrow> int option" where
  "parseInt str R =
     (let s1 = dropWhile isStrWhiteSpaceChar str;
          sign = (if take 1 s1 = ''-'' then - 1 else (1::int));
          s2 = (if take 1 s1 = ''-'' \<or> take 1 s1 = ''+'' then drop 1 s1 else s1);
          s3 = (if R = 16 \<and> (take 2 s2 = ''0x'' \<or> take 2 s2 = ''0X'') then drop 2 s2 else s2);
          z = takeWhile (isRadixDigit R) s3
      in if z = [] then None else Some (sign * digitsValue R z))"

text \<open>\<^verbatim>\<open>color.substr(start, len)\<close> and \<^verbatim>\<open>color.toLowerCase()\<close> (on the ASCII letters).\<close>

definition substr :: "string \<Rightarrow> nat \<Rightarrow> nat \<Rightarrow> string" where
  "substr str start len = take len (drop start str)"

definition toLowerCase :: "string \<Rightarrow> string" where
  "toLowerCase str =
     map (\<lambda>c. if 65 \<le> (of_char c :: nat) \<and> (of_char c :: nat) \<le> 90
               then char_of ((of_char c :: nat) + 32) else c) str"

text \<open>\<^verbatim>\<open>color.match(/\d+/g)\<close>: the maximal runs of decimal digits; \<open>None\<close> is \<^verbatim>\<open>null\<close>.\<close>

definition isDecimalDigit :: "char \<Rightarrow> bool" where
  "isDecimalDigit c = (48 \<le> (of_char c :: nat) \<and> (of_char c :: nat) \<le> 57)"

fun digitRuns :: "string \<Rightarrow> string \<Rightarrow> string list" where
  "digitRuns cur [] = (if cur = [] then [] else [cur])"
| "digitRuns cur (c # cs) =
     (if isDecimalDigit c then digitRuns (cur @ [c]) cs
      else (if cur = [] then [] else [cur]) @ digitRuns [] cs)"

definition matchDigits :: "string \<Rightarrow> string list option" where
  "matchDigits str = (let runs = digitRuns [] str in if runs = [] then None else Some runs)"

text \<open>
  \<^verbatim>\<open>yiq >= 128 ? '#222' : '#fff'\<close> for \<^verbatim>\<open>yiq = (r*299 + g*587 + b*114) / 1000\<close>; a
  component that is NaN makes \<open>yiq\<close> NaN and the comparison false.
\<close>

fun yiqColor :: "int option \<Rightarrow> int option \<Rightarrow> int option \<Rightarrow> string" where
  "yiqColor (Some r) (Some g) (Some b) =
     (if rat_of_int (r * 299 + g * 587 + b * 114) / 1000 \<ge> 128 then ''#222'' else ''#fff'')"
| "yiqColor None g b = ''#fff''"
| "yiqColor (Some r) None b = ''#fff''"
| "yiqColor (Some r) (Some g) None = ''#fff''"

text \<open>\<^verbatim>\<open>getContrastColor(color)\<close>.\<close>

definition getContrastColor :: "string \<Rightarrow> string" where
  "getContrastColor color =
     (if color = ''#fff'' \<or> color = ''#ffffff'' then ''#222''
      else if color = ''#111'' \<or> color = ''#000'' \<or> color = ''#000000'' then ''#fff''
      else if toLowerCase color = ''#008080'' then ''#222''
      else if take 1 color = ''#'' \<and> length color = 7 then
        yiqColor (parseInt (substr color 1 2) 16) (parseInt (substr color 3 2) 16)
                 (parseInt (substr color 5 2) 16)
      else if take 3 color = ''rgb'' \<and>
              (case matchDigits color of None \<Rightarrow> False | Some nums \<Rightarrow> length nums \<ge> 3) then
        (case matchDigits color of
           Some (n0 # n1 # n2 # rest) \<Rightarrow> yiqColor (parseInt n0 10) (parseInt n1 10) (parseInt n2 10)
         | _ \<Rightarrow> ''#222'')
      else ''#222'')"

text \<open>\<^verbatim>\<open>SNAP_COLORS\<close> and \<^verbatim>\<open>RETROBLUE_COLORS\<close>.\<close>

definition SNAP_COLORS_pattern1 :: string where "SNAP_COLORS_pattern1 = ''#00AD50''"
definition SNAP_COLORS_pattern2 :: string where "SNAP_COLORS_pattern2 = ''#FF9900''"
definition RETROBLUE_COLORS_pattern1 :: string where "RETROBLUE_COLORS_pattern1 = ''#0037A6''"
definition RETROBLUE_COLORS_pattern2 :: string where "RETROBLUE_COLORS_pattern2 = ''#008080''"

section \<open>Drawing the caption\<close>

text \<open>
  The drawing context is reduced to what the caption sets and reads: the font, the fill
  style and the global alpha. Text measurement belongs to the browser and is a parameter
  \<open>measureText\<close>, from the font and the text to a width. A call of
  \<^verbatim>\<open>ctx.fillText\<close> is recorded as a \<open>FillText\<close> with the context it is drawn in.
\<close>

record font =
  fontWeight :: nat
  fontPx :: int
  fontFamily :: string

record ctx2d =
  ctxFont :: font
  fillStyle :: string
  globalAlpha :: rat

datatype textOp = FillText ctx2d string rat rat


text \<open>\<^verbatim>\<open>drawTextWithLetterSpacing(ctx, text, x, y, letterSpacing)\<close>: one glyph per call.\<close>

fun drawTextWithLetterSpacing ::
  "(font \<Rightarrow> string \<Rightarrow> rat) \<Rightarrow> ctx2d \<Rightarrow> string \<Rightarrow> rat \<Rightarrow> rat \<Rightarrow> rat \<Rightarrow> textOp list" where
  "drawTextWithLetterSpacing measureText c [] x y letterSpacing = []"
| "drawTextWithLetterSpacing measureText c (ch # rest) x y letterSpacing =
     FillText c [ch] x y #
     drawTextWithLetterSpacing measureText c rest
       (x + measureText (ctxFont c) [ch] + letterSpacing) y letterSpacing"

text \<open>\<^verbatim>\<open>str.replace(pat, '')\<close> with a string pattern: the first occurrence is removed.\<close>

fun removeFirst :: "string \<Rightarrow> string \<Rightarrow> string" where
  "removeFirst pat [] = []"
| "removeFirst pat (ch # rest) =
     (if take (length pat) (ch # rest) = pat then drop (length pat) (ch # rest)
      else ch # removeFirst pat rest)"

definition OUTPUT_LONG_SIDE :: rat where "OUTPUT_LONG_SIDE = 2400"

text \<open>\<^verbatim>\<open>CAPTION_STYLE\<close>.\<close>

definition CAPTION_STYLE_font1 :: rat where "CAPTION_STYLE_font1 = 23 / 1000"
definition CAPTION_STYLE_font2 :: rat where "CAPTION_STYLE_font2 = 19 / 1000"
definition CAPTION_STYLE_lineGap :: rat where "CAPTION_STYLE_lineGap = 7 / 1000"

text \<open>
  The colours of the two caption lines, from the frame colour
  (\<^verbatim>\<open>firstLineColor\<close> and \<^verbatim>\<open>secondLineColor\<close> in \<^verbatim>\<open>drawCaption\<close>).
\<close>

definition captionLineColors :: "string \<Rightarrow> string \<times> string" where
  "captionLineColors frameColor =
     (let isSnapColor = (frameColor = SNAP_COLORS_pattern1 \<or> frameColor = SNAP_COLORS_pattern2);
          isSnapPattern2 = (frameColor = SNAP_COLORS_pattern2)
      in if isSnapPattern2 then (''#E2211C'', ''#E2211C'')
         else if isSnapColor then (''#fff'', ''#222'')
         else (getContrastColor frameColor, getContrastColor frameColor))"

text \<open>
  \<^verbatim>\<open>drawCaption(ctx, width, height, padBottom, imageDrawTop, imageDrawHeight,
  captionLines, frameColor, space, ratio, imageWidth, imageHeight)\<close>. The divisor
  \<open>outputShortSide\<close> is one of 2400, 12000/7 and 1350.
\<close>

definition drawCaption ::
  "(font \<Rightarrow> string \<Rightarrow> rat) \<Rightarrow> rat \<Rightarrow> rat \<Rightarrow> rat \<Rightarrow> rat \<Rightarrow> rat \<Rightarrow> string \<times> string \<Rightarrow> string \<Rightarrow>
   SpaceType \<Rightarrow> RatioType \<Rightarrow> rat option \<Rightarrow> rat option \<Rightarrow> textOp list" where
  "drawCaption measureText width height padBottom imageDrawTop imageDrawHeight captionLines
       frameColor space ratio imageWidth imageHeight =
     (let outputShortSide =
            min OUTPUT_LONG_SIDE
              (OUTPUT_LONG_SIDE * (if ratio = R1_1 then 1 else if ratio = R5_7 then 5 / 7 else 9 / 16));
          scale = min width height / outputShortSide;
          baseFontPx1 = Math_round (outputShortSide * CAPTION_STYLE_font1 * scale);
          baseFontPx2 = Math_round (outputShortSide * CAPTION_STYLE_font2 * scale);
          lineGap = Math_round (outputShortSide * CAPTION_STYLE_lineGap * scale);
          totalHeight = baseFontPx1 + baseFontPx2 + lineGap;
          yStart = getCaptionYPosition ratio space height padBottom imageDrawTop imageDrawHeight
                     (rat_of_int totalHeight) imageWidth imageHeight;
          isSnapColor = (frameColor = SNAP_COLORS_pattern1 \<or> frameColor = SNAP_COLORS_pattern2);
          firstLineColor = fst (captionLineColors frameColor);
          secondLineColor = snd (captionLineColors frameColor);
          letterSpacing1 = 4 / 10;
          letterSpacing2 = 4 / 10;
          line1 =
            (if fst captionLines \<noteq> [] then
               (let shotOn = ''Shot on '';
                    cameraName = removeFirst shotOn (fst captionLines);
                    regular = \<lparr> fontWeight = 400, fontPx = baseFontPx1, fontFamily = ''KT Flux 100'' \<rparr>;
                    medium = \<lparr> fontWeight = 500, fontPx = baseFontPx1, fontFamily = ''KT Flux 100'' \<rparr>;
                    shotOnWidth = measureText regular shotOn
                                  + (rat_of_int (int (length shotOn)) - 1) * letterSpacing1;
                    cameraWidth = measureText medium cameraName
                                  + (rat_of_int (int (length cameraName)) - 1) * letterSpacing1;
                    totalWidth = shotOnWidth + cameraWidth;
                    xStart = width / 2 - totalWidth / 2
                in drawTextWithLetterSpacing measureText
                     \<lparr> ctxFont = regular, fillStyle = firstLineColor, globalAlpha = 1 \<rparr>
                     shotOn xStart yStart letterSpacing1
                   @ drawTextWithLetterSpacing measureText
                     \<lparr> ctxFont = medium, fillStyle = firstLineColor, globalAlpha = 1 \<rparr>
                     cameraName (xStart + shotOnWidth) yStart letterSpacing1)
             else []);
          line2 =
            (if snd captionLines \<noteq> [] then
               (let regular2 = \<lparr> fontWeight = 400, fontPx = baseFontPx2, fontFamily = ''KT Flux 200'' \<rparr>;
                    line2Width = measureText regular2 (snd captionLines)
                                 + (rat_of_int (int (length (snd captionLines))) - 1) * letterSpacing2;
                    x2 = width / 2 - line2Width / 2
                in drawTextWithLetterSpacing measureText
                     \<lparr> ctxFont = regular2, fillStyle = secondLineColor,
                       globalAlpha = (if isSnapColor then 1 else 7 / 10) \<rparr>
                     (snd captionLines) x2 (yStart + rat_of_int baseFontPx1 + rat_of_int lineGap)
                     letterSpacing2)
             else [])
      in line1 @ line2)"

section \<open>Frame padding\<close>

text \<open>\<^verbatim>\<open>minPadBottomTable\<close>, keyed by ratio, then by spaces.\<close>

fun minPadBottomTable :: "RatioType \<Rightarrow> (SpaceType \<Rightarrow> rat option) option" where
  "minPadBottomTable R1_1 =
     Some (\<lambda>sp. case sp of S \<Rightarrow> Some (17 / 100) | M \<Rightarrow> Some (17 / 100) | L \<Rightarrow> Some (17 / 100))"
| "minPadBottomTable R5_7 =
     Some (\<lambda>sp. case sp of S \<Rightarrow> Some (1 / 10) | M \<Rightarrow> Some (17 / 100) | L \<Rightarrow> Some (17 / 100))"
| "minPadBottomTable R9_16 =
     Some (\<lambda>sp. case sp of S \<Rightarrow> Some (17 / 100) | M \<Rightarrow> Some (17 / 100) | L \<Rightarrow> Some (17 / 100))"

record padding =
  padTop :: rat
  padLeft :: rat
  padRight :: rat
  padBottom :: rat

text \<open>
  \<^verbatim>\<open>getFramePadding(width, height, ratio, space)\<close>. The top padding is rounded first
  and multiplied afterwards, as in the source.
\<close>

definition getFramePadding :: "rat \<Rightarrow> rat \<Rightarrow> RatioType \<Rightarrow> SpaceType \<Rightarrow> padding" where
  "getFramePadding width height ratio space =
     (let basePadding = (if space = S then 4 / 100 else if space = M then 8 / 100 else 15 / 100);
          minPadBottom = nullish (optChain (minPadBottomTable ratio) space) (17 / 100);
          extraBottom = max 0 (minPadBottom - basePadding);
          shortSide = min width height;
          padTop0 = rat_of_int (Math_round (shortSide * basePadding));
          padLeft0 = rat_of_int (Math_round (shortSide * basePadding));
          padRight0 = rat_of_int (Math_round (shortSide * basePadding));
          padBottom0 = rat_of_int (Math_round (shortSide * (basePadding + extraBottom)));
          padTop1 =
            (if ratio = R9_16
             then (let p = padTop0 * (25 / 10) in if space = S then p * (18 / 10) else p)
             else padTop0)
      in \<lparr> padTop = padTop1, padLeft = padLeft0, padRight = padRight0, padBottom = padBottom0 \<rparr>)"

section \<open>Canvas sizes\<close>

text \<open>\<^verbatim>\<open>[rw, rh]\<close> of a ratio.\<close>

fun ratioMap :: "RatioType \<Rightarrow> rat \<times> rat" where
  "ratioMap R1_1 = (1, 1)"
| "ratioMap R5_7 = (5, 7)"
| "ratioMap R9_16 = (9, 16)"

text \<open>
  The size of the preview canvas, computed in the body of the component from
  \<^verbatim>\<open>window.innerWidth\<close>, the \<^verbatim>\<open>forceMobile\<close> state (\<^verbatim>\<open>null\<close>, true or false) and
  the ratio. The divisors \<open>rw\<close> and \<open>rh\<close> are constants that are not zero.
\<close>

definition previewCanvasSize :: "rat \<Rightarrow> bool option \<Rightarrow> RatioType \<Rightarrow> rat \<times> rat" where
  "previewCanvasSize innerWidth forceMobile ratio =
     (let maxMobileW = rat_of_int \<lfloor>min (innerWidth * (80 / 100)) 300\<rfloor>;
          maxMobileH = 600;
          rw = fst (ratioMap ratio);
          rh = snd (ratioMap ratio);
          mobilePreviewW0 = maxMobileW;
          mobilePreviewH0 = rat_of_int (Math_round (mobilePreviewW0 * rh / rw));
          mobilePreviewH = (if mobilePreviewH0 > maxMobileH then maxMobileH else mobilePreviewH0);
          mobilePreviewW =
            (if mobilePreviewH0 > maxMobileH
             then rat_of_int (Math_round (mobilePreviewH * rw / rh)) else mobilePreviewW0)
      in if forceMobile \<noteq> Some True then
           (let baseW = 480;
                baseH = rat_of_int (Math_round (baseW * 7 / 5))
            in if ratio = R1_1 then (baseW, baseW)
               else if ratio = R9_16 then (rat_of_int (Math_round (baseH * 9 / 16)), baseH)
               else (baseW, baseH))
         else (mobilePreviewW, mobilePreviewH))"

text \<open>The size of the export canvas (\<^verbatim>\<open>outputW\<close>, \<^verbatim>\<open>outputH\<close> of the Print button).\<close>

definition outputSize :: "RatioType \<Rightarrow> rat \<times> rat" where
  "outputSize ratio =
     (let rw = fst (ratioMap ratio);
          rh = snd (ratioMap ratio);
          outputLong = OUTPUT_LONG_SIDE;
          outputW = (if rw \<ge> rh then outputLong else rat_of_int (Math_round (outputLong * rw / rh)));
          outputH = (if rh > rw then outputLong else rat_of_int (Math_round (outputLong * rh / rw)))
      in (outputW, outputH))"

section \<open>Image placement\<close>

text \<open>\<^verbatim>\<open>a > x\<close> for a finite \<open>a\<close> and a quotient \<open>x\<close>.\<close>

fun finGreater :: "rat \<Rightarrow> jsnum \<Rightarrow> bool" where
  "finGreater a (Fin b) = (a > b)"
| "finGreater a PInf = False"
| "finGreater a NInf = True"
| "finGreater a NaN = False"

record geometry =
  pad :: padding
  imageDrawLeft :: rat
  imageDrawTop :: rat
  imageDrawWidth :: rat
  imageDrawHeight :: rat

text \<open>
  The geometry of the preview, from the image branch of \<^verbatim>\<open>drawCanvas\<close>. The result is
  \<open>None\<close> where a coordinate of the image rectangle is not finite (an image of height
  zero, or a division by an aspect ratio of zero): \<^verbatim>\<open>drawImage\<close> draws nothing then.
\<close>

definition drawCanvasGeometry ::
  "rat \<Rightarrow> rat \<Rightarrow> RatioType \<Rightarrow> SpaceType \<Rightarrow> rat \<Rightarrow> rat \<Rightarrow> geometry option" where
  "drawCanvasGeometry canvasW canvasH ratio space imageW imageH =
     (let p = getFramePadding canvasW canvasH ratio space;
          drawW = canvasW - padLeft p - padRight p;
          drawH = canvasH - padTop p - padBottom p;
          padTopForDraw = (if ratio = R9_16 \<and> space = L then 0 else padTop p);
          drawHForDraw = (if ratio = R9_16 \<and> space = L then canvasH else drawH)
      in case jsdiv imageW imageH of
           Fin imgAspect \<Rightarrow>
             (let frameAspect = jsdiv drawW drawHForDraw;
                  target =
                    (if finGreater imgAspect frameAspect
                     then (case jsdiv drawW imgAspect of
                             Fin quot \<Rightarrow> Some (drawW, quot) | _ \<Rightarrow> None)
                     else Some (drawHForDraw * imgAspect, drawHForDraw))
              in case target of
                   None \<Rightarrow> None
                 | Some (targetW, targetH) \<Rightarrow>
                     (let left = padLeft p + (drawW - targetW) / 2;
                          is34Image = absDiffLess (Fin imgAspect) (3 / 4) (5 / 100);
                          is45Image = absDiffLess (Fin imgAspect) (4 / 5) (5 / 100);
                          top =
                            (if ratio = R9_16 \<or> (is34Image \<and> ratio = R5_7 \<and> space = L)
                                \<or> (is45Image \<and> ratio = R5_7 \<and> space = L)
                             then padTopForDraw + (drawHForDraw - targetH) / 2
                             else padTopForDraw)
                      in Some \<lparr> pad = p, imageDrawLeft = left, imageDrawTop = top,
                                imageDrawWidth = targetW, imageDrawHeight = targetH \<rparr>))
         | _ \<Rightarrow> None)"

text \<open>The geometry of the export, from the handler of the Print button.\<close>

definition exportGeometry ::
  "rat \<Rightarrow> rat \<Rightarrow> RatioType \<Rightarrow> SpaceType \<Rightarrow> rat \<Rightarrow> rat \<Rightarrow> geometry option" where
  "exportGeometry outputW outputH ratio space imageW imageH =
     (let p = getFramePadding outputW outputH ratio space;
          drawWOut = outputW - padLeft p - padRight p;
          drawHOut = outputH - padTop p - padBottom p
      in case jsdiv imageW imageH of
           Fin imgAspect \<Rightarrow>
             (let frameAspect = jsdiv drawWOut drawHOut;
                  target =
                    (if finGreater imgAspect frameAspect
                     then (case jsdiv drawWOut imgAspect of
                             Fin quot \<Rightarrow> Some (drawWOut, quot) | _ \<Rightarrow> None)
                     else Some (drawHOut * imgAspect, drawHOut))
              in case target of
                   None \<Rightarrow> None
                 | Some (targetW, targetH) \<Rightarrow>
                     (let left = padLeft p + (drawWOut - targetW) / 2;
                          is34Image = absDiffLess (Fin imgAspect) (3 / 4) (5 / 100);
                          is45Image = absDiffLess (Fin imgAspect) (4 / 5) (5 / 100);
                          top =
                            (if ratio = R9_16 \<or> (is34Image \<and> ratio = R5_7 \<and> space = L)
                                \<or> (is45Image \<and> ratio = R5_7 \<and> space = L)
                             then padTop p + (drawHOut - targetH) / 2
                             else padTop p)
                      in Some \<lparr> pad = p, imageDrawLeft = left, imageDrawTop = top,
                                imageDrawWidth = targetW, imageDrawHeight = targetH \<rparr>))
         | _ \<Rightarrow> None)"

section \<open>The state of the component\<close>

text \<open>
  An uploaded image (\<^verbatim>\<open>HTMLImageElement\<close>) is its data URL and its intrinsic size; the
  width and height of an image element are unsigned integers.
\<close>

record htmlImage =
  src :: string
  width :: nat
  height :: nat

record ExifData =
  Make :: "string option"
  Model :: "string option"
  ISO :: "rat option"
  FNumber :: "rat option"
  ExposureTime :: "rat option"
  Software :: "string option"

text \<open>\<^verbatim>\<open>ColorType\<close>; the initial state of the colour is the empty string, here \<open>NoColor\<close>.\<close>

datatype ColorType = NoColor | White | Black | Retroblue | Snap | Auto

text \<open>
  The \<^verbatim>\<open>useState\<close> cells of \<^verbatim>\<open>FramesTool\<close> that the upload handler, the preview and
  the export read or write.
\<close>

record appState =
  image :: "htmlImage option"
  space :: SpaceType
  ratio :: RatioType
  color :: ColorType
  autoColor :: string
  snapPattern :: nat
  retrobluePattern :: nat
  autoPattern :: nat
  exifData :: "ExifData option"
  captionLines :: "string \<times> string"
  showErrorPopup :: bool
  isFilmScannerImage :: bool
  manualCamera :: string
  manualPlace :: string

text \<open>\<^verbatim>\<open>getFrameColor(color, autoColor, snapPattern, retrobluePattern)\<close>.\<close>

definition getFrameColor :: "ColorType \<Rightarrow> string \<Rightarrow> nat \<Rightarrow> nat \<Rightarrow> string" where
  "getFrameColor c auto snapP retroP =
     (if c = NoColor then ''#dfdfdf''
      else if c = White then ''#fff''
      else if c = Black then ''#111''
      else if c = Retroblue then
        (if retroP = 1 then RETROBLUE_COLORS_pattern1 else RETROBLUE_COLORS_pattern2)
      else if c = Snap then (if snapP = 1 then SNAP_COLORS_pattern1 else SNAP_COLORS_pattern2)
      else if c = Auto then auto
      else ''#dfdfdf'')"

section \<open>The compositor\<close>

text \<open>
  What a render puts on a canvas, in order. The scaling of the backing store by the
  device pixel ratio does not change a coordinate of the calls and is left out.
\<close>

datatype canvasOp =
    FillRect string rat rat rat rat
  | StrokeRect string rat rat rat rat rat
  | StrokeLine string rat rat rat rat rat
  | DrawImage htmlImage rat rat rat rat
  | Text textOp

text \<open>
  \<^verbatim>\<open>drawCanvas\<close>, the render of the preview. \<open>haveCtx\<close> says that the canvas and its
  2D context could be obtained.
\<close>

definition drawCanvas ::
  "(font \<Rightarrow> string \<Rightarrow> rat) \<Rightarrow> bool \<Rightarrow> appState \<Rightarrow> rat \<Rightarrow> rat \<Rightarrow> canvasOp list" where
  "drawCanvas measureText haveCtx s canvasW canvasH =
     (if \<not> haveCtx then []
      else
        (let frameColor = getFrameColor (color s) (autoColor s) (snapPattern s) (retrobluePattern s)
         in case image s of
              None \<Rightarrow>
                [FillRect frameColor 0 0 canvasW canvasH,
                 StrokeRect ''#bbb'' 2 0 0 canvasW canvasH,
                 StrokeLine ''#bbb'' 1 canvasW 0 0 canvasH,
                 StrokeLine ''#bbb'' 1 0 0 canvasW canvasH]
            | Some img \<Rightarrow>
                FillRect frameColor 0 0 canvasW canvasH #
                (case drawCanvasGeometry canvasW canvasH (ratio s) (space s)
                        (rat_of_nat (width img)) (rat_of_nat (height img)) of
                   None \<Rightarrow> []
                 | Some g \<Rightarrow>
                     DrawImage img (imageDrawLeft g) (imageDrawTop g)
                       (imageDrawWidth g) (imageDrawHeight g) #
                     (if fst (captionLines s) \<noteq> [] \<or> snd (captionLines s) \<noteq> [] then
                        map Text
                          (drawCaption measureText canvasW canvasH (padBottom (pad g))
                             (imageDrawTop g) (imageDrawHeight g) (captionLines s) frameColor
                             (space s) (ratio s)
                             (Some (rat_of_nat (width img))) (Some (rat_of_nat (height img))))
                      else []))))"

text \<open>
  The handler of the Print button, up to the drawing of the export canvas. \<open>mobile\<close> is
  \<^verbatim>\<open>isMobileDevice()\<close> and \<open>canvasH\<close> the height of the preview canvas, which a mobile
  device passes to \<^verbatim>\<open>drawCaption\<close> in place of the height of the export canvas.
\<close>

definition printExport ::
  "(font \<Rightarrow> string \<Rightarrow> rat) \<Rightarrow> bool \<Rightarrow> bool \<Rightarrow> appState \<Rightarrow> rat \<Rightarrow> canvasOp list" where
  "printExport measureText haveCtx mobile s canvasH =
     (if \<not> haveCtx then []
      else case image s of
        None \<Rightarrow> []
      | Some img \<Rightarrow>
          (let outputW = fst (outputSize (ratio s));
               outputH = snd (outputSize (ratio s));
               frameColorOut =
                 getFrameColor (color s) (autoColor s) (snapPattern s) (retrobluePattern s)
           in FillRect frameColorOut 0 0 outputW outputH #
              (case exportGeometry outputW outputH (ratio s) (space s)
                      (rat_of_nat (width img)) (rat_of_nat (height img)) of
                 None \<Rightarrow> []
               | Some g \<Rightarrow>
                   DrawImage img (imageDrawLeft g) (imageDrawTop g)
                     (imageDrawWidth g) (imageDrawHeight g) #
                   (if fst (captionLines s) \<noteq> [] \<or> snd (captionLines s) \<noteq> [] then
                      (let canvasHForCaption = (if mobile then canvasH else outputH)
                       in map Text
                            (drawCaption measureText outputW canvasHForCaption (padBottom (pad g))
                               (imageDrawTop g) (imageDrawHeight g) (captionLines s) frameColorOut
                               (space s) (ratio s)
                               (Some (rat_of_nat (width img))) (Some (rat_of_nat (height img)))))
                    else []))))"

section \<open>Uploading an image\<close>

text \<open>
  What the upload handler takes from its collaborators: the dominant colour of an image
  (sampled from its pixels), the EXIF tags of an image, the film scanner test (it reads a
  list of scanner makers that is an asset of the application) and the caption text built
  from the EXIF tags (it reads the table of camera aliases, an asset too).
\<close>

record uploadEnv =
  getDominantColor :: "htmlImage \<Rightarrow> string"
  readExif :: "htmlImage \<Rightarrow> ExifData"
  isFilmScanExif :: "string option \<Rightarrow> string option \<Rightarrow> bool"
  getCaptionLines :: "ExifData \<Rightarrow> string \<times> string"

text \<open>
  \<^verbatim>\<open>img.onload\<close> inside \<^verbatim>\<open>handleFilesUpload\<close>: the state after the callbacks of a
  decoded image have run.
\<close>

definition imgOnload :: "uploadEnv \<Rightarrow> appState \<Rightarrow> htmlImage \<Rightarrow> appState" where
  "imgOnload env s img =
     (if \<not> isSupportedAspectRatio (rat_of_nat (width img)) (rat_of_nat (height img))
      then s\<lparr> showErrorPopup := True \<rparr>
      else
        (let s1 = s\<lparr> image := Some img, autoColor := getDominantColor env img, autoPattern := 1 \<rparr>;
             s2 = (if color s = NoColor then s1\<lparr> color := White \<rparr> else s1);
             exif = readExif env img;
             s3 = s2\<lparr> exifData := Some exif \<rparr>;
             isFilmScannerDetected = isFilmScanExif env (Make exif) (Software exif);
             s4 = s3\<lparr> isFilmScannerImage := isFilmScannerDetected \<rparr>
         in if isFilmScannerDetected
            then s4\<lparr> manualCamera := [], manualPlace := [], captionLines := ([], []) \<rparr>
            else s4\<lparr> captionLines := getCaptionLines env exif \<rparr>))"

text \<open>
  \<^verbatim>\<open>handleFilesUpload(files)\<close>: \<open>None\<close> is \<^verbatim>\<open>null\<close>; the first file is read and
  decoded, the others are ignored.
\<close>

fun handleFilesUpload :: "uploadEnv \<Rightarrow> appState \<Rightarrow> htmlImage list option \<Rightarrow> appState" where
  "handleFilesUpload env s None = s"
| "handleFilesUpload env s (Some []) = s"
| "handleFilesUpload env s (Some (file # others)) = imgOnload env s file"

section \<open>The initial state\<close>

text \<open>The initial values of the \<^verbatim>\<open>useState\<close> cells.\<close>

definition initialState :: appState where
  "initialState =
     \<lparr> image = None, space = M, ratio = R5_7, color = NoColor, autoColor = ''#e53e3e'',
       snapPattern = 1, retrobluePattern = 1, autoPattern = 1, exifData = None,
       captionLines = ([], []), showErrorPopup = False, isFilmScannerImage = False,
       manualCamera = [], manualPlace = [] \<rparr>"

text \<open>
  Collaborators for the examples: an image without EXIF tags, whose dominant colour is a
  grey.
\<close>

definition exampleEnv :: uploadEnv where
  "exampleEnv =
     \<lparr> getDominantColor = (\<lambda>i. ''rgb(128,128,128)''),
       readExif = (\<lambda>i. \<lparr> Make = None, Model = None, ISO = None, FNumber = None,
                          ExposureTime = None, Software = None \<rparr>),
       isFilmScanExif = (\<lambda>mk sw. False),
       getCaptionLines = (\<lambda>e. ([], [])) \<rparr>"

section \<open>The statements of the specification\<close>







text \<open>The image held in the state, if any, has passed the acceptance check.\<close>

definition imageAccepted :: "appState \<Rightarrow> bool" where
  "imageAccepted s =
     (case image s of
        None \<Rightarrow> True
      | Some i \<Rightarrow> isSupportedAspectRatio (rat_of_nat (width i)) (rat_of_nat (height i)))"

section \<open>Properties of the frame padding\<close>

lemma Math_round_nonneg: "0 \<le> x \<Longrightarrow> 0 \<le> Math_round x"
  by (simp add: Math_round_def)

lemma isInteger_of_int: "isInteger (rat_of_int n)"
  by (simp add: isInteger_def)

lemma isInteger_half_multiple: "isInteger (2 * (rat_of_int k / 2 * rat_of_int n))"
proof -
  have "2 * (rat_of_int k / 2 * rat_of_int n) = rat_of_int (k * n)" by simp
  then show ?thesis by (simp only: isInteger_of_int)
qed

text \<open>
  The table and the two chained multipliers resolved: the bottom fraction
  \<open>basePadding + extraBottom\<close> is the entry of the table, which is never below the base
  padding.
\<close>

lemma getFramePadding_unfold:
  "getFramePadding w h r sp =
     \<lparr> padTop = (if r = R9_16 then (if sp = S then 45 / 10 else 25 / 10) else 1)
                 * rat_of_int (Math_round (min w h *
                     (case sp of S \<Rightarrow> 4 / 100 | M \<Rightarrow> 8 / 100 | L \<Rightarrow> 15 / 100))),
       padLeft = rat_of_int (Math_round (min w h *
                     (case sp of S \<Rightarrow> 4 / 100 | M \<Rightarrow> 8 / 100 | L \<Rightarrow> 15 / 100))),
       padRight = rat_of_int (Math_round (min w h *
                     (case sp of S \<Rightarrow> 4 / 100 | M \<Rightarrow> 8 / 100 | L \<Rightarrow> 15 / 100))),
       padBottom = rat_of_int (Math_round (min w h *
                     (if r = R5_7 \<and> sp = S then 10 / 100 else 17 / 100))) \<rparr>"
  by (cases r; cases sp; simp add: getFramePadding_def Let_def)

lemma getFramePadding_shape:
  assumes "0 \<le> w" and "0 \<le> h"
  shows "\<exists>n m k. 0 \<le> n \<and> 0 \<le> m \<and> 0 \<le> k \<and> (r \<noteq> R9_16 \<longrightarrow> k = 2) \<and>
          getFramePadding w h r sp =
            \<lparr> padTop = rat_of_int k / 2 * rat_of_int n, padLeft = rat_of_int n,
              padRight = rat_of_int n, padBottom = rat_of_int m \<rparr>"
proof -
  let ?b = "case sp of S \<Rightarrow> 4 / 100 | M \<Rightarrow> 8 / 100 | L \<Rightarrow> (15 / 100 :: rat)"
  let ?c = "if r = R5_7 \<and> sp = S then 10 / 100 else (17 / 100 :: rat)"
  let ?k = "if r = R9_16 then (if sp = S then 9 else 5) else (2::int)"
  have m: "0 \<le> min w h" using assms by simp
  have b: "0 \<le> ?b" by (cases sp) simp_all
  have c: "0 \<le> ?c" by simp
  have n: "0 \<le> Math_round (min w h * ?b)"
    using m b by (intro Math_round_nonneg mult_nonneg_nonneg)
  have mm: "0 \<le> Math_round (min w h * ?c)"
    using m c by (intro Math_round_nonneg mult_nonneg_nonneg)
  have k: "0 \<le> ?k" "r \<noteq> R9_16 \<longrightarrow> ?k = 2" by simp_all
  have e: "getFramePadding w h r sp =
            \<lparr> padTop = rat_of_int ?k / 2 * rat_of_int (Math_round (min w h * ?b)),
              padLeft = rat_of_int (Math_round (min w h * ?b)),
              padRight = rat_of_int (Math_round (min w h * ?b)),
              padBottom = rat_of_int (Math_round (min w h * ?c)) \<rparr>"
    by (subst getFramePadding_unfold) simp
  show ?thesis using n mm k e by blast
qed

text \<open>
  Claim C2. For every canvas width and height and every ratio and spacing tier,
  \<open>getFramePadding\<close> computes the base padding 0.04, 0.08 or 0.15 for S, M or L, the
  minimal bottom fraction 0.10 for (5:7, S) and 0.17 otherwise, the extra bottom
  \<open>max 0 (minPadBottom - basePadding)\<close>; left, right and top are the rounded product of
  the short side and the base padding, the bottom is the rounded product of the short
  side and \<open>basePadding + extraBottom\<close>; for 9:16 the top is multiplied by 2.5, and by
  4.5 in all when the tier is S.
\<close>

theorem C2_getFramePadding_algorithm:
  "getFramePadding w h r sp =
     (let basePadding = (case sp of S \<Rightarrow> 4 / 100 | M \<Rightarrow> 8 / 100 | L \<Rightarrow> 15 / 100);
          minPadBottom = (if r = R5_7 \<and> sp = S then 10 / 100 else 17 / 100);
          extraBottom = max 0 (minPadBottom - basePadding);
          shortSide = min w h;
          base = rat_of_int (Math_round (shortSide * basePadding))
      in \<lparr> padTop = (if r = R9_16 then (if sp = S then 45 / 10 else 25 / 10) * base else base),
           padLeft = base,
           padRight = base,
           padBottom = rat_of_int (Math_round (shortSide * (basePadding + extraBottom))) \<rparr>)"
  by (cases r; cases sp; simp add: getFramePadding_def Let_def)

text \<open>
  Claim C6, as stated: all four paddings are non-negative integers. It fails on the
  desktop preview canvas of the ratio 9:16 with the tier S: the rounded top padding 15 is
  multiplied by 2.5 and by 1.8 after the rounding, which gives 67.5.
\<close>

theorem C6_padTop_not_integer:
  "\<not> isInteger (padTop (getFramePadding 378 672 R9_16 S))"
  by code_simp

text \<open>
  Claim C6, amended. For a canvas of non-negative width and height and every ratio and
  tier, left and right padding are equal, the four paddings are non-negative, the left,
  right and bottom padding are integers, and the top padding is an integer for the ratios
  1:1 and 5:7; for 9:16 it is an integer multiple of one half.
\<close>

theorem C6_padding_postcondition:
  assumes "0 \<le> w" and "0 \<le> h"
  shows "padLeft (getFramePadding w h r sp) = padRight (getFramePadding w h r sp)
       \<and> 0 \<le> padTop (getFramePadding w h r sp)
       \<and> 0 \<le> padLeft (getFramePadding w h r sp)
       \<and> 0 \<le> padRight (getFramePadding w h r sp)
       \<and> 0 \<le> padBottom (getFramePadding w h r sp)
       \<and> isInteger (padLeft (getFramePadding w h r sp))
       \<and> isInteger (padRight (getFramePadding w h r sp))
       \<and> isInteger (padBottom (getFramePadding w h r sp))
       \<and> isInteger (2 * padTop (getFramePadding w h r sp))
       \<and> (r \<noteq> R9_16 \<longrightarrow> isInteger (padTop (getFramePadding w h r sp)))"
proof -
  obtain n m k where nn: "0 \<le> n" "0 \<le> m" "0 \<le> k" and k2: "r \<noteq> R9_16 \<longrightarrow> k = 2"
    and e: "getFramePadding w h r sp =
            \<lparr> padTop = rat_of_int k / 2 * rat_of_int n, padLeft = rat_of_int n,
              padRight = rat_of_int n, padBottom = rat_of_int m \<rparr>"
    using getFramePadding_shape [OF assms] by blast
  have t: "0 \<le> rat_of_int k / 2 * rat_of_int n" using nn by simp
  have i: "r \<noteq> R9_16 \<longrightarrow> isInteger (rat_of_int k / 2 * rat_of_int n)"
    using k2 by (auto simp: isInteger_of_int)
  show ?thesis
    unfolding e using nn t i
    by (simp add: isInteger_of_int isInteger_half_multiple del: of_int_mult times_divide_eq_left)
qed

theorem C6_padding_postcondition_witness:
  "(0::rat) \<le> 480 \<and> (0::rat) \<le> 672
   \<and> getFramePadding 480 672 R5_7 M = \<lparr> padTop = 38, padLeft = 38, padRight = 38, padBottom = 82 \<rparr>
   \<and> isInteger (padTop (getFramePadding 480 672 R5_7 M))"
proof -
  have a: "(0::rat) \<le> 480" "(0::rat) \<le> 672" by simp_all
  have e: "getFramePadding 480 672 R5_7 M =
             \<lparr> padTop = 38, padLeft = 38, padRight = 38, padBottom = 82 \<rparr>"
    by code_simp
  show ?thesis using C6_padding_postcondition [OF a, of R5_7 M] a e by simp
qed

section \<open>Properties of the caption position\<close>

text \<open>
  Claim C3. When the ratio is 9:16 (for every tier) or the tier is L (for every ratio),
  the caption anchor is the bottom of the image plus a fixed distance, which is the same
  fraction 0.02 of the canvas height for the three ratios.
\<close>

theorem C3_fixed_distance_regime:
  assumes "r = R9_16 \<or> sp = L"
  shows "getCaptionYPosition r sp canvasHeight pb drawTop drawHeight captionHeight iw ih
           = drawTop + drawHeight + (2 / 100) * canvasHeight
         \<and> CAPTION_DISTANCE_FROM_IMAGE_BOTTOM_L R1_1 = Some (2 / 100)
         \<and> CAPTION_DISTANCE_FROM_IMAGE_BOTTOM_L R5_7 = Some (2 / 100)
         \<and> CAPTION_DISTANCE_FROM_IMAGE_BOTTOM_L R9_16 = Some (2 / 100)"
  using assms by (cases r; simp add: getCaptionYPosition_def Let_def)

theorem C3_fixed_distance_regime_witness:
  "(R9_16 = R9_16 \<or> S = L)
   \<and> getCaptionYPosition R9_16 S 672 64 160 352 24 (Some 3000) (Some 4000) = 160 + 352 + (2 / 100) * 672
   \<and> getCaptionYPosition R9_16 M 672 64 160 352 24 (Some 3000) (Some 4000) = 160 + 352 + (2 / 100) * 672"
proof -
  have a: "R9_16 = R9_16 \<or> S = L" and b: "R9_16 = R9_16 \<or> M = L" by simp_all
  show ?thesis
    using C3_fixed_distance_regime [OF a, of 672 64 160 352 24 "Some 3000" "Some 4000"]
          C3_fixed_distance_regime [OF b, of 672 64 160 352 24 "Some 3000" "Some 4000"]
    by simp
qed





section \<open>Properties of the aspect ratio check\<close>

lemma absDiffLess_jsdiv:
  "absDiffLess (jsdiv w h) t tol \<longleftrightarrow> h \<noteq> 0 \<and> \<bar>w / h - t\<bar> < tol"
  by (simp add: jsdiv_def)

lemma isSupportedAspectRatio_iff:
  "isSupportedAspectRatio w h \<longleftrightarrow>
      h \<noteq> 0 \<and> (\<bar>w / h - 3 / 4\<bar> < 1 / 10 \<or> \<bar>w / h - 2 / 3\<bar> < 1 / 10 \<or> \<bar>w / h - 4 / 5\<bar> < 1 / 10)"
  by (auto simp add: isSupportedAspectRatio_def Let_def absDiffLess_jsdiv)



section \<open>Properties of the upload handler\<close>

lemma imageAccepted_upload:
  "imageAccepted s \<Longrightarrow> imageAccepted (handleFilesUpload env s files)"
  by (cases "(env, s, files)" rule: handleFilesUpload.cases)
     (auto simp add: imageAccepted_def imgOnload_def Let_def)

lemma imageAccepted_positive:
  "imageAccepted s \<Longrightarrow> image s = Some i \<Longrightarrow> 0 < width i \<and> 0 < height i"
  by (cases "width i = 0") (auto simp add: imageAccepted_def isSupportedAspectRatio_iff)

text \<open>
  Claim C8. When the dimensions of an uploaded image fail the acceptance check, the check
  returns false, the error popup is switched on, and nothing else of the state changes:
  the loaded image, the colours, the EXIF data and the caption lines are as before, and
  the preview and the export draw what they drew before, so not the rejected image.
\<close>

theorem C8_rejected_upload:
  assumes "\<not> isSupportedAspectRatio (rat_of_nat (width img)) (rat_of_nat (height img))"
  shows "handleFilesUpload env s (Some (img # others)) = s\<lparr> showErrorPopup := True \<rparr>
       \<and> showErrorPopup (handleFilesUpload env s (Some (img # others)))
       \<and> image (handleFilesUpload env s (Some (img # others))) = image s
       \<and> color (handleFilesUpload env s (Some (img # others))) = color s
       \<and> autoColor (handleFilesUpload env s (Some (img # others))) = autoColor s
       \<and> exifData (handleFilesUpload env s (Some (img # others))) = exifData s
       \<and> captionLines (handleFilesUpload env s (Some (img # others))) = captionLines s
       \<and> drawCanvas mt hc (handleFilesUpload env s (Some (img # others))) cw ch
           = drawCanvas mt hc s cw ch
       \<and> printExport mt hc mob (handleFilesUpload env s (Some (img # others))) ch
           = printExport mt hc mob s ch"
proof -
  have e: "handleFilesUpload env s (Some (img # others)) = s\<lparr> showErrorPopup := True \<rparr>"
    using assms by (simp add: imgOnload_def)
  show ?thesis
    unfolding e by (simp add: drawCanvas_def printExport_def Let_def split: option.splits)
qed

theorem C8_rejected_upload_witness:
  "\<not> isSupportedAspectRatio (rat_of_nat 1000) (rat_of_nat 1000)
   \<and> handleFilesUpload exampleEnv initialState
        (Some [\<lparr> src = ''square'', width = 1000, height = 1000 \<rparr>])
       = initialState\<lparr> showErrorPopup := True \<rparr>
   \<and> image (handleFilesUpload exampleEnv initialState
        (Some [\<lparr> src = ''square'', width = 1000, height = 1000 \<rparr>])) = None"
proof -
  have a: "\<not> isSupportedAspectRatio
               (rat_of_nat (width \<lparr> src = ''square'', width = 1000, height = 1000 \<rparr>))
               (rat_of_nat (height \<lparr> src = ''square'', width = 1000, height = 1000 \<rparr>))"
    by (simp add: isSupportedAspectRatio_iff)
  have b: "image initialState = None" by (simp add: initialState_def)
  show ?thesis
    using C8_rejected_upload [OF a, of exampleEnv initialState "[]"] a b by simp
qed

text \<open>
  Claim C10. For an image whose width or height is zero the ratio computed by the
  acceptance check is 0, Infinity or NaN, the check returns false, and the upload handler
  leaves the state as it was but for the error popup; and when the image held in the
  state has passed the check, the image held after any upload has a positive width and
  height, so that the geometry is never computed from a degenerate image.
\<close>

theorem C10_degenerate_image_rejected:
  assumes "width img = 0 \<or> height img = 0"
  shows "(jsdiv (rat_of_nat (width img)) (rat_of_nat (height img)) = Fin 0
          \<or> jsdiv (rat_of_nat (width img)) (rat_of_nat (height img)) = PInf
          \<or> jsdiv (rat_of_nat (width img)) (rat_of_nat (height img)) = NaN)
       \<and> \<not> isSupportedAspectRatio (rat_of_nat (width img)) (rat_of_nat (height img))
       \<and> handleFilesUpload env s (Some (img # others)) = s\<lparr> showErrorPopup := True \<rparr>
       \<and> image (handleFilesUpload env s (Some (img # others))) = image s
       \<and> (imageAccepted s \<longrightarrow>
            (\<forall>files i. image (handleFilesUpload env s files) = Some i
               \<longrightarrow> 0 < width i \<and> 0 < height i))"
proof -
  have q: "jsdiv (rat_of_nat (width img)) (rat_of_nat (height img)) = Fin 0
          \<or> jsdiv (rat_of_nat (width img)) (rat_of_nat (height img)) = PInf
          \<or> jsdiv (rat_of_nat (width img)) (rat_of_nat (height img)) = NaN"
    using assms by (auto simp add: jsdiv_def)
  have n: "\<not> isSupportedAspectRatio (rat_of_nat (width img)) (rat_of_nat (height img))"
    using assms by (auto simp add: isSupportedAspectRatio_iff)
  have e: "handleFilesUpload env s (Some (img # others)) = s\<lparr> showErrorPopup := True \<rparr>"
    using n by (simp add: imgOnload_def)
  have i: "imageAccepted s \<longrightarrow>
            (\<forall>files i. image (handleFilesUpload env s files) = Some i
               \<longrightarrow> 0 < width i \<and> 0 < height i)"
    using imageAccepted_upload imageAccepted_positive by blast
  show ?thesis using q n e i by simp
qed

theorem C10_degenerate_image_rejected_witness:
  "jsdiv (rat_of_nat 3000) (rat_of_nat 0) = PInf
   \<and> jsdiv (rat_of_nat 0) (rat_of_nat 0) = NaN
   \<and> \<not> isSupportedAspectRatio (rat_of_nat 3000) (rat_of_nat 0)
   \<and> handleFilesUpload exampleEnv initialState
        (Some [\<lparr> src = ''flat'', width = 3000, height = 0 \<rparr>])
       = initialState\<lparr> showErrorPopup := True \<rparr>
   \<and> imageAccepted initialState
   \<and> image (handleFilesUpload exampleEnv initialState
        (Some [\<lparr> src = ''portrait'', width = 3000, height = 4000 \<rparr>]))
       = Some \<lparr> src = ''portrait'', width = 3000, height = 4000 \<rparr>"
proof -
  have a: "width \<lparr> src = ''flat'', width = 3000, height = 0 \<rparr> = 0
           \<or> height \<lparr> src = ''flat'', width = 3000, height = 0 \<rparr> = 0"
    by simp
  have b: "imageAccepted initialState" by (simp add: imageAccepted_def initialState_def)
  have c: "image (handleFilesUpload exampleEnv initialState
             (Some [\<lparr> src = ''portrait'', width = 3000, height = 4000 \<rparr>]))
           = Some \<lparr> src = ''portrait'', width = 3000, height = 4000 \<rparr>"
    by (simp add: imgOnload_def initialState_def exampleEnv_def isSupportedAspectRatio_iff Let_def)
  have d: "jsdiv (rat_of_nat 0) (rat_of_nat 0) = NaN" by (simp add: jsdiv_def)
  have p: "jsdiv (rat_of_nat 3000) (rat_of_nat 0) = PInf" by (simp add: jsdiv_def)
  show ?thesis
    using C10_degenerate_image_rejected [OF a, of exampleEnv initialState "[]"] b c d p by simp
qed

section \<open>Properties of the caption colours\<close>





section \<open>Properties of the image placement\<close>














section \<open>Preview against export\<close>

text \<open>
  Claim C1: for fixed selections the preview and the export are geometrically similar,
  the image rectangle and the caption anchor divided by the canvas size being equal up to
  rounding, the export computing its geometry as the preview does. The code at the ratio
  9:16 with the tier L and a 3:4 image of 3000 by 4000: the desktop preview canvas is 378
  by 672 and the export canvas 1350 by 2400; the preview draws the image from 160, which
  is 0.238 of the canvas height, the export from 709.4, which is 0.296 of it, and the
  caption anchors (caption heights 19 and 66) are 0.782 and 0.840 of the canvas height.
  Both differ by more than 0.05 of the canvas height.
\<close>

theorem C1_preview_export_9_16_L:
  "previewCanvasSize 1280 (Some False) R9_16 = (378, 672)
   \<and> outputSize R9_16 = (1350, 2400)
   \<and> drawCanvasGeometry 378 672 R9_16 L 3000 4000 =
       Some \<lparr> pad = \<lparr> padTop = 285 / 2, padLeft = 57, padRight = 57, padBottom = 64 \<rparr>,
              imageDrawLeft = 57, imageDrawTop = 160, imageDrawWidth = 264, imageDrawHeight = 352 \<rparr>
   \<and> exportGeometry 1350 2400 R9_16 L 3000 4000 =
       Some \<lparr> pad = \<lparr> padTop = 1015 / 2, padLeft = 203, padRight = 203, padBottom = 230 \<rparr>,
              imageDrawLeft = 203, imageDrawTop = 8513 / 12, imageDrawWidth = 944,
              imageDrawHeight = 3776 / 3 \<rparr>
   \<and> (8513 / 12) / 2400 - 160 / 672 > (5 / 100 :: rat)
   \<and> getCaptionYPosition R9_16 L 2400 230 (8513 / 12) (3776 / 3) 66 (Some 3000) (Some 4000) / 2400
       - getCaptionYPosition R9_16 L 672 64 160 352 19 (Some 3000) (Some 4000) / 672 > 5 / 100"
  by code_simp

end
